theory Spec2Isabelle
  imports Main
begin

section \<open>Python values and exceptions\<close>

text \<open>
  The client passes around whatever \<^verbatim>\<open>response.json()\<close> produced: \<^verbatim>\<open>None\<close>, booleans,
  integers, floats, strings, lists and dicts with string keys. A finite float is
  \<open>Finite m e\<close>, standing for \<open>m * 2 ^ e\<close>; the program only ever looks at whether a float
  is zero. A dict is an association list read with \<open>map_of\<close>. Strings are byte lists; the
  only string tests of the program look for the ASCII words \<^verbatim>\<open>http\<close> and \<^verbatim>\<open>data\<close>, which
  occur in the UTF-8 bytes exactly where they occur in the code points.
\<close>

datatype pyfloat = Finite int int | PosInf | NegInf | NaN

datatype pyval =
    PNone
  | PBool bool
  | PInt int
  | PFloat pyfloat
  | PStr string
  | PList "pyval list"
  | PDict "(string \<times> pyval) list"

text \<open>
  Exceptions as values. \<open>APIError code message\<close> is the class of \<^verbatim>\<open>client.py\<close>;
  \<open>ValueError m\<close> is any instance of \<^verbatim>\<open>ValueError\<close> or of a subclass of it (such as
  \<^verbatim>\<open>json.JSONDecodeError\<close>) whose \<^verbatim>\<open>str()\<close> is \<open>m\<close>; \<open>OtherError m\<close> is any
  exception of a collaborator that is not a \<^verbatim>\<open>ValueError\<close> (a connection failure, a
  content type mismatch). \<open>TypeError\<close> and \<open>AttributeError\<close> carry no text: the program
  never reads it. \<open>DecodeError\<close> and \<open>RetriesExhaustedError\<close> are the two error kinds
  that the specification gives the iterators besides the classified API errors.
\<close>

datatype exn =
    APIError pyval pyval
  | ValueError string
  | KeyError string
  | TypeError
  | AttributeError
  | RecursionError
  | DecodeError
  | RetriesExhaustedError
  | OtherError string

text \<open>Truth value testing, as \<^verbatim>\<open>if error:\<close> does it.\<close>

fun truthy :: "pyval \<Rightarrow> bool" where
  "truthy PNone = False"
| "truthy (PBool b) = b"
| "truthy (PInt i) = (i \<noteq> 0)"
| "truthy (PFloat (Finite m e)) = (m \<noteq> 0)"
| "truthy (PFloat f) = True"
| "truthy (PStr s) = (s \<noteq> [])"
| "truthy (PList xs) = (xs \<noteq> [])"
| "truthy (PDict kv) = (kv \<noteq> [])"

text \<open>\<^verbatim>\<open>v.get(k)\<close>: only a dict has the method; a missing key gives \<^verbatim>\<open>None\<close>.\<close>

fun py_get :: "pyval \<Rightarrow> string \<Rightarrow> exn + pyval" where
  "py_get (PDict kv) k = Inr (case map_of kv k of None \<Rightarrow> PNone | Some v \<Rightarrow> v)"
| "py_get v k = Inl AttributeError"

text \<open>\<^verbatim>\<open>v[k]\<close> with a string \<open>k\<close>: \<^verbatim>\<open>KeyError\<close> on a dict without the key,
  \<^verbatim>\<open>TypeError\<close> on everything that is not a dict.\<close>

fun py_getitem :: "pyval \<Rightarrow> string \<Rightarrow> exn + pyval" where
  "py_getitem (PDict kv) k = (case map_of kv k of None \<Rightarrow> Inl (KeyError k) | Some v \<Rightarrow> Inr v)"
| "py_getitem v k = Inl TypeError"

text \<open>\<^verbatim>\<open>s.startswith(p)\<close> and the substring test \<^verbatim>\<open>p in s\<close> on strings.\<close>

definition startswith :: "string \<Rightarrow> string \<Rightarrow> bool" where
  "startswith s p = (take (length p) s = p)"

fun str_contains :: "string \<Rightarrow> string \<Rightarrow> bool" where
  "str_contains [] p = (p = [])"
| "str_contains (c # s) p = (startswith (c # s) p \<or> str_contains s p)"

text \<open>\<^verbatim>\<open>k in v\<close> with a string \<open>k\<close>: key membership on a dict, element membership on a
  list, substring on a string, \<^verbatim>\<open>TypeError\<close> on a value that is not a container.\<close>

fun py_contains :: "string \<Rightarrow> pyval \<Rightarrow> exn + bool" where
  "py_contains k (PDict kv) = Inr (k \<in> fst ` set kv)"
| "py_contains k (PList xs) = Inr (PStr k \<in> set xs)"
| "py_contains k (PStr s) = Inr (str_contains s k)"
| "py_contains k v = Inl TypeError"

section \<open>Responses, sessions and the client\<close>

text \<open>
  An HTTP response as the client sees it: the status, what \<^verbatim>\<open>await response.text()\<close>
  gives and what \<^verbatim>\<open>await response.json()\<close> gives, which is an exception when the body is
  not JSON.
\<close>

record response =
  status :: int
  body_text :: string
  body_json :: "exn + pyval"

type_synonym query = "(string \<times> pyval) list option"

text \<open>
  The \<^verbatim>\<open>aiohttp.ClientSession\<close> of a client: the headers and the connector setting it was
  built with, whether it has been closed, and the requests issued through it, oldest
  first.
\<close>

record session =
  sess_headers :: "(string \<times> string) list"
  sess_ssl :: bool
  sess_closed :: bool
  sess_sent :: "(string \<times> query) list"

record client =
  host :: string
  apikey :: string
  agent :: string
  session :: session

text \<open>What \<^verbatim>\<open>session.get(url, params=params)\<close> answers is the network's business: every
  operation that fetches takes it as the parameter \<open>http\<close>, a function of the session
  (so also of how many requests came before), the URL and the query.\<close>

type_synonym transport = "session \<Rightarrow> string \<Rightarrow> query \<Rightarrow> exn + response"

definition API_HOST :: string where
  "API_HOST = ''https://www.virustotal.com''"

definition ENDPOINT_PREFIX :: string where
  "ENDPOINT_PREFIX = ''/api/v3''"

text \<open>\<^verbatim>\<open>'{agent}; vtpy {version}; gzip'.format_map(...)\<close>\<close>

definition USER_AGENT_FMT :: "string \<Rightarrow> string \<Rightarrow> string" where
  "USER_AGENT_FMT agent_name version = agent_name @ ''; vtpy '' @ version @ ''; gzip''"

text \<open>\<^verbatim>\<open>str(apikey)\<close> for an argument that is a string or \<^verbatim>\<open>None\<close>.\<close>

fun str_opt :: "string option \<Rightarrow> string" where
  "str_opt None = ''None''"
| "str_opt (Some s) = s"

text \<open>
  \<^verbatim>\<open>Client.__init__(apikey, agent, host)\<close>. \<open>version\<close> is \<^verbatim>\<open>__version__\<close> of the package.
  The number threaded through is the count of \<^verbatim>\<open>ClientSession\<close> objects constructed so
  far. \<^verbatim>\<open>not apikey\<close> holds for \<^verbatim>\<open>None\<close> and for the empty string, and \<^verbatim>\<open>host or _API_HOST\<close>
  takes the default for \<^verbatim>\<open>None\<close> and for the empty string alike.
\<close>

definition Client_init ::
  "string \<Rightarrow> string option \<Rightarrow> string \<Rightarrow> string option \<Rightarrow> nat \<Rightarrow> (exn + client) \<times> nat" where
  "Client_init version key agent_name host_arg sessions =
     (if key = None \<or> key = Some []
      then (Inl (ValueError (''Expecting API key, got: '' @ str_opt key)), sessions)
      else
        (Inr \<lparr> host = (if host_arg = None \<or> host_arg = Some [] then API_HOST else the host_arg),
               apikey = the key,
               agent = agent_name,
               session = \<lparr> sess_headers =
                             [(''X-Apikey'', the key),
                              (''Accept-Encoding'', ''gzip''),
                              (''User-Agent'', USER_AGENT_FMT agent_name version)],
                           sess_ssl = False,
                           sess_closed = False,
                           sess_sent = [] \<rparr> \<rparr>,
         Suc sessions))"

definition full_url :: "client \<Rightarrow> string \<Rightarrow> string" where
  "full_url c path =
     (if startswith path ''http'' then path else host c @ ENDPOINT_PREFIX @ path)"

text \<open>\<^verbatim>\<open>APIError.from_dict\<close>: \<^verbatim>\<open>dict_error['code']\<close> is evaluated first.\<close>

definition APIError_from_dict :: "pyval \<Rightarrow> exn + exn" where
  "APIError_from_dict dict_error =
     (case py_getitem dict_error ''code'' of
        Inl e \<Rightarrow> Inl e
      | Inr code \<Rightarrow>
          (case py_get dict_error ''message'' of
             Inl e \<Rightarrow> Inl e
           | Inr message \<Rightarrow> Inr (APIError code message)))"

text \<open>\<^verbatim>\<open>Client.get_error\<close>: \<open>Inr None\<close> is the return value \<^verbatim>\<open>None\<close>, \<open>Inr (Some e)\<close> a
  returned \<^verbatim>\<open>APIError\<close> object, \<open>Inl e\<close> an exception raised while classifying.\<close>

definition get_error :: "response \<Rightarrow> exn + exn option" where
  "get_error r =
     (if status r = 200 then Inr None
      else if status r \<ge> 400 \<and> status r \<le> 499 then
        (case body_json r of
           Inl e \<Rightarrow> Inl e
         | Inr json_resp \<Rightarrow>
             (case py_get json_resp ''error'' of
                Inl e \<Rightarrow> Inl e
              | Inr error \<Rightarrow>
                  if truthy error
                  then (case APIError_from_dict error of
                          Inl e \<Rightarrow> Inl e
                        | Inr api_error \<Rightarrow> Inr (Some api_error))
                  else Inr (Some (APIError (PStr ''ClientError'') (PStr (body_text r))))))
      else Inr (Some (APIError (PStr ''ServerError'') (PStr (body_text r)))))"

text \<open>\<^verbatim>\<open>Client.get_async\<close>: one request through the session, no checking.\<close>

definition record_request :: "client \<Rightarrow> string \<Rightarrow> query \<Rightarrow> client" where
  "record_request c url params =
     c\<lparr>session := (session c)\<lparr>sess_sent := sess_sent (session c) @ [(url, params)]\<rparr>\<rparr>"

definition get_async :: "transport \<Rightarrow> client \<Rightarrow> string \<Rightarrow> query \<Rightarrow> (exn + response) \<times> client" where
  "get_async http c path params =
     (http (session c) (full_url c path) params, record_request c (full_url c path) params)"

text \<open>\<^verbatim>\<open>Client.get_json_response_async\<close>. An \<^verbatim>\<open>APIError\<close> object is always true in
  \<^verbatim>\<open>if error:\<close> (the class defines neither \<^verbatim>\<open>__bool__\<close> nor \<^verbatim>\<open>__len__\<close>).\<close>

definition get_json_response_async ::
  "transport \<Rightarrow> client \<Rightarrow> string \<Rightarrow> query \<Rightarrow> (exn + pyval) \<times> client" where
  "get_json_response_async http c path params =
     (case get_async http c path params of
        (Inl e, c') \<Rightarrow> (Inl e, c')
      | (Inr http_resp, c') \<Rightarrow>
          (case get_error http_resp of
             Inl e \<Rightarrow> (Inl e, c')
           | Inr (Some error) \<Rightarrow> (Inl error, c')
           | Inr None \<Rightarrow> (body_json http_resp, c')))"

text \<open>\<^verbatim>\<open>Client.get_data_async\<close>\<close>

definition get_data_async ::
  "transport \<Rightarrow> client \<Rightarrow> string \<Rightarrow> query \<Rightarrow> (exn + pyval) \<times> client" where
  "get_data_async http c path params =
     (case get_json_response_async http c path params of
        (Inl e, c') \<Rightarrow> (Inl e, c')
      | (Inr json_resp, c') \<Rightarrow>
          (case py_contains ''data'' json_resp of
             Inl e \<Rightarrow> (Inl e, c')
           | Inr False \<Rightarrow> (Inl (ValueError (path @ '' does not returns a data field'')), c')
           | Inr True \<Rightarrow> (py_getitem json_resp ''data'', c')))"

text \<open>\<^verbatim>\<open>except ValueError as err: raise ValueError('{} did not return an object: {}'
  .format(path, err))\<close>: every \<^verbatim>\<open>ValueError\<close> is rewrapped, everything else passes.\<close>

fun rewrap :: "string \<Rightarrow> exn \<Rightarrow> exn" where
  "rewrap path (ValueError m) = ValueError (path @ '' did not return an object: '' @ m)"
| "rewrap path e = e"

text \<open>\<^verbatim>\<open>Client.get_object_async\<close>. \<open>from_dict\<close> is \<^verbatim>\<open>Object.from_dict\<close> of the object
  module, taken as a parameter. The \<^verbatim>\<open>try\<close> covers the fetch as well as the decoding.\<close>

definition get_object_async ::
  "(pyval \<Rightarrow> exn + 'obj) \<Rightarrow> transport \<Rightarrow> client \<Rightarrow> string \<Rightarrow> query \<Rightarrow> (exn + 'obj) \<times> client" where
  "get_object_async from_dict http c path params =
     (case get_data_async http c path params of
        (Inl e, c') \<Rightarrow> (Inl (rewrap path e), c')
      | (Inr d, c') \<Rightarrow>
          (case from_dict d of
             Inl e \<Rightarrow> (Inl (rewrap path e), c')
           | Inr obj \<Rightarrow> (Inr obj, c')))"

text \<open>\<^verbatim>\<open>Client.close_async\<close> awaits \<^verbatim>\<open>self._session.close()\<close>.\<close>

definition close_async :: "client \<Rightarrow> exn + client" where
  "close_async c = Inr (c\<lparr>session := (session c)\<lparr>sess_closed := True\<rparr>\<rparr>)"

text \<open>
  \<^verbatim>\<open>Client.close\<close>: the argument of \<^verbatim>\<open>run_until_complete\<close> is \<^verbatim>\<open>self.close(*args,
  **kwargs)\<close>, a call of the same method, evaluated before anything is run. The first
  argument is the number of stack frames the interpreter still allows; with none left
  the call raises \<^verbatim>\<open>RecursionError\<close>.
\<close>

fun close :: "nat \<Rightarrow> client \<Rightarrow> exn + client" where
  "close 0 c = Inl RecursionError"
| "close (Suc frames) c = close frames c"

section \<open>Concrete inputs\<close>

text \<open>A client as \<^verbatim>\<open>Client('k3y')\<close> builds it under version 0.5.0 of the package, and a
  transport that answers every request with the same response.\<close>

definition example_client :: client where
  "example_client =
     \<lparr> host = ''https://www.virustotal.com'', apikey = ''k3y'', agent = ''unknown'',
       session = \<lparr> sess_headers = [(''X-Apikey'', ''k3y''), (''Accept-Encoding'', ''gzip''),
                                   (''User-Agent'', ''unknown; vtpy 0.5.0; gzip'')],
                   sess_ssl = False, sess_closed = False, sess_sent = [] \<rparr> \<rparr>"

definition always :: "response \<Rightarrow> transport" where
  "always r = (\<lambda>s url params. Inr r)"

text \<open>An error page that is not JSON: \<^verbatim>\<open>response.json()\<close> raises on it.\<close>

definition html_page :: "int \<Rightarrow> response" where
  "html_page code =
     \<lparr> status = code, body_text = ''<html>gateway</html>'',
       body_json = Inl (OtherError ''ContentTypeError'') \<rparr>"

definition json_page :: "int \<Rightarrow> string \<Rightarrow> pyval \<Rightarrow> response" where
  "json_page code raw v = \<lparr> status = code, body_text = raw, body_json = Inr v \<rparr>"

section \<open>The iterators the client hands out\<close>

datatype FeedType = FILES

text \<open>What a call of \<^verbatim>\<open>next\<close> gives its caller.\<close>

datatype 'a outcome = Yield 'a | EndOfSequence | Raise exn

text \<open>
  Modelled from the spec: the class \<^verbatim>\<open>Iterator\<close> of \<^verbatim>\<open>vt/iterator.py\<close>, which is not under
  src/. Its state is the IteratorState of section 3: the current cursor, the count of
  objects yielded so far, the configured limit and batch size (both nullable), with the
  buffer of decoded objects not yet yielded and the terminal mark of section 4.1, and
  the client handle it was constructed with.
\<close>

record 'obj Iterator =
  it_client :: client
  it_path :: string
  it_cursor :: string
  it_limit :: "int option"
  it_batch_size :: "int option"
  it_buffer :: "'obj list"
  it_count :: int
  it_terminal :: bool

text \<open>
  Modelled from the spec: the constructor of \<^verbatim>\<open>Iterator\<close>, "constructed with (client
  handle, collection path, optional resume cursor, optional overall limit, optional
  batch size)"; the cursor is "initially the resume cursor, or empty", the buffer is
  empty and nothing has been yielded or fetched.
\<close>

definition Iterator_init ::
  "client \<Rightarrow> string \<Rightarrow> string option \<Rightarrow> int option \<Rightarrow> int option \<Rightarrow> 'obj Iterator" where
  "Iterator_init c path cursor limit batch_size =
     \<lparr> it_client = c, it_path = path,
       it_cursor = (case cursor of None \<Rightarrow> [] | Some s \<Rightarrow> s),
       it_limit = limit, it_batch_size = batch_size,
       it_buffer = [], it_count = 0, it_terminal = False \<rparr>"

text \<open>\<^verbatim>\<open>Client.iterator\<close>, from the source: the constructor call and nothing else.\<close>

definition iterator ::
  "client \<Rightarrow> string \<Rightarrow> string option \<Rightarrow> int option \<Rightarrow> int option \<Rightarrow> 'obj Iterator" where
  "iterator c path cursor limit batch_size = Iterator_init c path cursor limit batch_size"



text \<open>Modelled from the spec: step 5 of section 4.1, the response "must contain a data
  array of raw records"; anything else is a decode error.\<close>

definition page_records :: "pyval \<Rightarrow> exn + pyval list" where
  "page_records page =
     (case page of
        PDict kv \<Rightarrow> (case map_of kv ''data'' of
                       Some (PList records) \<Rightarrow> Inr records
                     | _ \<Rightarrow> Inl DecodeError)
      | _ \<Rightarrow> Inl DecodeError)"


text \<open>Modelled from the spec: step 6, "decode each raw record into an Object", with the
  Object Decoder of section 6 as the parameter \<open>decode\<close>; the first record that fails
  ends the decoding with its error.\<close>

fun decode_records :: "(pyval \<Rightarrow> exn + 'obj) \<Rightarrow> pyval list \<Rightarrow> exn + 'obj list" where
  "decode_records decode [] = Inr []"
| "decode_records decode (r # rs) =
     (case decode r of
        Inl e \<Rightarrow> Inl e
      | Inr x \<Rightarrow> (case decode_records decode rs of
                    Inl e \<Rightarrow> Inl e
                  | Inr xs \<Rightarrow> Inr (x # xs)))"






text \<open>\<^verbatim>\<open>FeedType.FILES.value\<close>\<close>

fun FeedType_value :: "FeedType \<Rightarrow> string" where
  "FeedType_value FILES = ''files''"

text \<open>
  Modelled from the spec: the configuration points that sections 4.2, 5 and 9 leave to
  the implementer of the Feed Iterator (\<^verbatim>\<open>vt/feed.py\<close> is not under src/): the retry
  budget, the default starting cursor, the step from a window \<^verbatim>\<open>YYYYMMDDhhmm\<close> to the next
  minute, the path and query of a window's request, and which classified errors mean
  that the server reports "not found". The delay between attempts is real time and has
  no place here.
\<close>

record feed_config =
  cfg_retry_budget :: nat
  cfg_default_cursor :: string
  cfg_next_minute :: "string \<Rightarrow> string"
  cfg_request :: "FeedType \<Rightarrow> string \<Rightarrow> string \<times> query"
  cfg_not_found :: "exn \<Rightarrow> bool"

text \<open>
  Modelled from the spec: the class \<^verbatim>\<open>Feed\<close> of \<^verbatim>\<open>vt/feed.py\<close>, which is not under src/. Its
  state is the current window cursor and the count of consecutive "not found" retries at
  that cursor (section 3), and the FAILED state of section 4.2, kept as the error that
  led to it.
\<close>

record Feed =
  fd_config :: feed_config
  fd_client :: client
  fd_type :: FeedType
  fd_cursor :: string
  fd_retries :: nat
  fd_failed :: "exn option"

text \<open>Modelled from the spec: the constructor of \<^verbatim>\<open>Feed\<close>, "constructed with (client
  handle, feed type tag, optional starting cursor)"; the cursor "starts at the supplied
  cursor, or a server-determined default if none supplied".\<close>

definition Feed_init :: "feed_config \<Rightarrow> client \<Rightarrow> FeedType \<Rightarrow> string option \<Rightarrow> Feed" where
  "Feed_init cfg c feed_type cursor =
     \<lparr> fd_config = cfg, fd_client = c, fd_type = feed_type,
       fd_cursor = (case cursor of None \<Rightarrow> cfg_default_cursor cfg | Some s \<Rightarrow> s),
       fd_retries = 0, fd_failed = None \<rparr>"

text \<open>\<^verbatim>\<open>Client.feed\<close>, from the source: the constructor call and nothing else. The
  configuration is the constructor's own, not an argument of the Python method.\<close>

definition feed :: "feed_config \<Rightarrow> client \<Rightarrow> FeedType \<Rightarrow> string option \<Rightarrow> Feed" where
  "feed cfg c feed_type cursor = Feed_init cfg c feed_type cursor"

text \<open>Modelled from the spec: the request for the current window, step 1 of section
  4.2.\<close>

definition window_request :: "Feed \<Rightarrow> string \<times> query" where
  "window_request fd = cfg_request (fd_config fd) (fd_type fd) (fd_cursor fd)"

text \<open>Modelled from the spec: step 3 of section 4.2, "decode the batch's records into
  Objects".\<close>

definition decode_batch :: "(pyval \<Rightarrow> exn + 'obj) \<Rightarrow> pyval \<Rightarrow> exn + 'obj list" where
  "decode_batch decode page =
     (case page_records page of
        Inl e \<Rightarrow> Inl e
      | Inr records \<Rightarrow> decode_records decode records)"

text \<open>
  Modelled from the spec: the "next batch" request of section 4.2. A FAILED iterator
  stays failed and fetches nothing. Otherwise the current window is fetched (step 1).
  When the server reports "not found" and retries are left, the retry count goes up and
  the same cursor is fetched again; with none left the request gives
  \<open>RetriesExhaustedError\<close> (step 2). On success the batch is decoded, the cursor moves
  to the next minute and the retry count is reset (step 3). Any other error, and a
  malformed payload, is given to the caller and the iterator is FAILED (step 4).
\<close>

function next_batch ::
  "transport \<Rightarrow> (pyval \<Rightarrow> exn + 'obj) \<Rightarrow> Feed \<Rightarrow> 'obj list outcome \<times> Feed" where
  "next_batch http decode fd =
     (case fd_failed fd of
        Some e \<Rightarrow> (Raise e, fd)
      | None \<Rightarrow>
          (case get_json_response_async http (fd_client fd)
                  (fst (window_request fd)) (snd (window_request fd)) of
             (Inl e, c') \<Rightarrow>
               if cfg_not_found (fd_config fd) e then
                 (if fd_retries fd < cfg_retry_budget (fd_config fd)
                  then next_batch http decode
                         (fd\<lparr>fd_client := c', fd_retries := Suc (fd_retries fd)\<rparr>)
                  else (Raise RetriesExhaustedError, fd\<lparr>fd_client := c'\<rparr>))
               else (Raise e, fd\<lparr>fd_client := c', fd_failed := Some e\<rparr>)
           | (Inr page, c') \<Rightarrow>
               (case decode_batch decode page of
                  Inl e \<Rightarrow> (Raise e, fd\<lparr>fd_client := c', fd_failed := Some e\<rparr>)
                | Inr objs \<Rightarrow>
                    (Yield objs,
                     fd\<lparr>fd_client := c',
                        fd_cursor := cfg_next_minute (fd_config fd) (fd_cursor fd),
                        fd_retries := 0\<rparr>))))"
  by pat_completeness auto
termination
  by (relation "measure (\<lambda>(http, decode, fd). cfg_retry_budget (fd_config fd) - fd_retries fd)")
     auto

text \<open>
  The client after \<open>k\<close> more requests of the same URL and query, and the statement that
  the next \<open>n\<close> fetches of a feed's current window all report "not found": the fetch
  issued after \<open>k\<close> earlier ones, for every \<open>k\<close> below \<open>n\<close>, is classified as an error that
  the configuration counts as "not found".
\<close>

fun requests_later :: "nat \<Rightarrow> string \<Rightarrow> query \<Rightarrow> client \<Rightarrow> client" where
  "requests_later 0 url q c = c"
| "requests_later (Suc k) url q c = requests_later k url q (record_request c url q)"

definition reports_not_found :: "transport \<Rightarrow> feed_config \<Rightarrow> client \<Rightarrow> string \<Rightarrow> query \<Rightarrow> bool" where
  "reports_not_found http cfg c path q =
     (case fst (get_json_response_async http c path q) of
        Inl e \<Rightarrow> cfg_not_found cfg e
      | Inr page \<Rightarrow> False)"

definition not_found_run :: "transport \<Rightarrow> Feed \<Rightarrow> nat \<Rightarrow> bool" where
  "not_found_run http fd n =
     list_all
       (\<lambda>k. reports_not_found http (fd_config fd)
              (requests_later k (full_url (fd_client fd) (fst (window_request fd)))
                 (snd (window_request fd)) (fd_client fd))
              (fst (window_request fd)) (snd (window_request fd)))
       [0..<n]"

text \<open>A feed configuration for the examples: two retries, windows requested as
  \<^verbatim>\<open>/feeds/<type>/<cursor>\<close>, "not found" told by the error code.\<close>

definition example_config :: feed_config where
  "example_config =
     \<lparr> cfg_retry_budget = 2,
       cfg_default_cursor = ''202304010930'',
       cfg_next_minute = (\<lambda>w. if w = ''202304010930'' then ''202304010931'' else w),
       cfg_request = (\<lambda>t w. (''/feeds/'' @ FeedType_value t @ ''/'' @ w, None)),
       cfg_not_found = (\<lambda>e. case e of APIError code message \<Rightarrow> code = PStr ''NotFoundError''
                                  | _ \<Rightarrow> False) \<rparr>"

definition not_found_page :: response where
  "not_found_page =
     json_page 404 ''raw'' (PDict [(''error'', PDict [(''code'', PStr ''NotFoundError'')])])"



declare next_batch.simps [simp del]

section \<open>Error classification\<close>

lemma get_error_ok: "status r = 200 \<Longrightarrow> get_error r = Inr None"
  by (simp add: get_error_def)

lemma get_error_envelope:
  "400 \<le> status r \<Longrightarrow> status r \<le> 499 \<Longrightarrow> body_json r = Inr (PDict kv)
   \<Longrightarrow> map_of kv ''error'' = Some (PDict env) \<Longrightarrow> env \<noteq> []
   \<Longrightarrow> map_of env ''code'' = Some code
   \<Longrightarrow> get_error r =
         Inr (Some (APIError code (case map_of env ''message'' of None \<Rightarrow> PNone | Some m \<Rightarrow> m)))"
  by (simp add: get_error_def APIError_from_dict_def)

lemma get_error_no_envelope:
  "400 \<le> status r \<Longrightarrow> status r \<le> 499 \<Longrightarrow> body_json r = Inr (PDict kv)
   \<Longrightarrow> (case map_of kv ''error'' of None \<Rightarrow> True | Some v \<Rightarrow> \<not> truthy v)
   \<Longrightarrow> get_error r = Inr (Some (APIError (PStr ''ClientError'') (PStr (body_text r))))"
  by (simp add: get_error_def split: option.splits)

lemma get_error_other:
  "status r \<noteq> 200 \<Longrightarrow> \<not> (400 \<le> status r \<and> status r \<le> 499)
   \<Longrightarrow> get_error r = Inr (Some (APIError (PStr ''ServerError'') (PStr (body_text r))))"
  by (cases "400 \<le> status r") (simp_all add: get_error_def)

lemma get_error_None_iff: "(get_error r = Inr None) = (status r = 200)"
  by (auto simp: get_error_def split: sum.splits if_splits)

text \<open>
  C1 (as amended). \<open>get_error\<close> returns \<open>None\<close> for status 200. For a status from 400 to
  499 whose body parses as a JSON object: when the object's \<open>error\<close> member is a
  non-empty object with a \<open>code\<close> member, it returns the \<open>APIError\<close> of that code and of
  the \<open>message\<close> member (\<open>None\<close> when absent); when the \<open>error\<close> member is absent or
  false (null, empty), it returns \<open>APIError('ClientError', raw body text)\<close>. Every other
  status gives \<open>APIError('ServerError', raw body text)\<close>.
\<close>

theorem get_error_classification:
  "(status r = 200 \<longrightarrow> get_error r = Inr None)
   \<and> (400 \<le> status r \<and> status r \<le> 499 \<and> body_json r = Inr (PDict kv)
        \<and> map_of kv ''error'' = Some (PDict env) \<and> env \<noteq> []
        \<and> map_of env ''code'' = Some code
      \<longrightarrow> get_error r =
            Inr (Some (APIError code
                   (case map_of env ''message'' of None \<Rightarrow> PNone | Some m \<Rightarrow> m))))
   \<and> (400 \<le> status r \<and> status r \<le> 499 \<and> body_json r = Inr (PDict kv)
        \<and> (case map_of kv ''error'' of None \<Rightarrow> True | Some v \<Rightarrow> \<not> truthy v)
      \<longrightarrow> get_error r = Inr (Some (APIError (PStr ''ClientError'') (PStr (body_text r)))))
   \<and> (status r \<noteq> 200 \<and> \<not> (400 \<le> status r \<and> status r \<le> 499)
      \<longrightarrow> get_error r = Inr (Some (APIError (PStr ''ServerError'') (PStr (body_text r)))))"
proof (intro conjI impI)
  assume "status r = 200"
  then show "get_error r = Inr None" by (rule get_error_ok)
next
  assume "400 \<le> status r \<and> status r \<le> 499 \<and> body_json r = Inr (PDict kv)
        \<and> map_of kv ''error'' = Some (PDict env) \<and> env \<noteq> []
        \<and> map_of env ''code'' = Some code"
  then show "get_error r =
            Inr (Some (APIError code
                   (case map_of env ''message'' of None \<Rightarrow> PNone | Some m \<Rightarrow> m)))"
    by (simp add: get_error_envelope)
next
  assume "400 \<le> status r \<and> status r \<le> 499 \<and> body_json r = Inr (PDict kv)
        \<and> (case map_of kv ''error'' of None \<Rightarrow> True | Some v \<Rightarrow> \<not> truthy v)"
  then show "get_error r = Inr (Some (APIError (PStr ''ClientError'') (PStr (body_text r))))"
    by (simp add: get_error_no_envelope)
next
  assume "status r \<noteq> 200 \<and> \<not> (400 \<le> status r \<and> status r \<le> 499)"
  then show "get_error r = Inr (Some (APIError (PStr ''ServerError'') (PStr (body_text r))))"
    by (simp add: get_error_other)
qed

theorem get_error_classification_witness:
  "get_error (json_page 200 ''{}'' (PDict [])) = Inr None
   \<and> get_error (json_page 404 ''raw''
        (PDict [(''error'', PDict [(''code'', PStr ''NotFoundError''),
                                   (''message'', PStr ''no such file'')])]))
       = Inr (Some (APIError (PStr ''NotFoundError'') (PStr ''no such file'')))
   \<and> get_error (json_page 403 ''raw'' (PDict [(''error'', PDict [(''code'', PStr ''Forbidden'')])]))
       = Inr (Some (APIError (PStr ''Forbidden'') PNone))
   \<and> get_error (json_page 400 ''{}'' (PDict []))
       = Inr (Some (APIError (PStr ''ClientError'') (PStr ''{}'')))
   \<and> get_error (html_page 503) =
       Inr (Some (APIError (PStr ''ServerError'') (PStr ''<html>gateway</html>'')))"
  using get_error_classification [of "json_page 200 ''{}'' (PDict [])"]
    get_error_classification [of "json_page 404 ''raw''
        (PDict [(''error'', PDict [(''code'', PStr ''NotFoundError''),
                                   (''message'', PStr ''no such file'')])])"
        "[(''error'', PDict [(''code'', PStr ''NotFoundError''),
                                   (''message'', PStr ''no such file'')])]"
        "[(''code'', PStr ''NotFoundError''), (''message'', PStr ''no such file'')]"
        "PStr ''NotFoundError''"]
    get_error_classification [of "json_page 403 ''raw''
        (PDict [(''error'', PDict [(''code'', PStr ''Forbidden'')])])"
        "[(''error'', PDict [(''code'', PStr ''Forbidden'')])]"
        "[(''code'', PStr ''Forbidden'')]" "PStr ''Forbidden''"]
    get_error_classification [of "json_page 400 ''{}'' (PDict [])"
        "[]"]
    get_error_classification [of "html_page 503"]
  by (simp add: json_page_def html_page_def)

text \<open>The claim as stated fails: a 4xx response carrying no envelope because its body is
  not JSON, or is JSON but not an object, and an envelope without a \<open>code\<close>, all make
  \<open>get_error\<close> raise instead of returning an \<open>APIError\<close>.\<close>

theorem get_error_unparsed_body_counterexample:
  "get_error (html_page 404) = Inl (OtherError ''ContentTypeError'')
   \<and> get_error (json_page 404 ''[]'' (PList [])) = Inl AttributeError
   \<and> get_error (json_page 400 ''raw'' (PDict [(''error'', PDict [(''message'', PStr ''bad'')])]))
       = Inl (KeyError ''code'')"
  by (simp add: get_error_def APIError_from_dict_def json_page_def html_page_def)

section \<open>Requests\<close>

lemma sent_record_request:
  "sess_sent (session (record_request c url params)) = sess_sent (session c) @ [(url, params)]"
  by (simp add: record_request_def)

lemma snd_get_json_response_async:
  "snd (get_json_response_async http c path params) = record_request c (full_url c path) params"
  by (simp add: get_json_response_async_def get_async_def split: sum.splits option.splits)

lemma fst_get_json_response_async:
  "fst (get_json_response_async http c path params) =
     (case http (session c) (full_url c path) params of
        Inl e \<Rightarrow> Inl e
      | Inr r \<Rightarrow> (case get_error r of Inl e \<Rightarrow> Inl e | Inr (Some e) \<Rightarrow> Inl e
                  | Inr None \<Rightarrow> body_json r))"
  by (simp add: get_json_response_async_def get_async_def split: sum.splits option.splits)

lemma snd_get_data_async:
  "snd (get_data_async http c path params) = record_request c (full_url c path) params"
  using snd_get_json_response_async [of http c path params]
  by (auto simp: get_data_async_def split: prod.splits sum.splits bool.splits)

lemma dict_contains_iff: "(k \<in> fst ` set kv) = (map_of kv k \<noteq> None)"
  by (simp add: map_of_eq_None_iff)

lemma startswith_iff: "startswith s p = (\<exists>rest. s = p @ rest)"
  unfolding startswith_def
proof
  assume "take (length p) s = p"
  then have "s = p @ drop (length p) s" by (metis append_take_drop_id)
  then show "\<exists>rest. s = p @ rest" ..
next
  assume "\<exists>rest. s = p @ rest"
  then show "take (length p) s = p" by auto
qed

lemma full_url_files: "full_url example_client ''/files/abc'' = ''https://www.virustotal.com/api/v3/files/abc''"
  by (simp add: full_url_def startswith_def example_client_def ENDPOINT_PREFIX_def)

text \<open>
  C2 (as amended). When the transport delivers a response, \<open>get_json_response_async\<close>
  returns a value exactly when the status is 200 and the body parses, and the value is
  the parsed body; for every status other than 200 it raises, either the \<open>APIError\<close> that
  \<open>get_error\<close> returned or the exception \<open>get_error\<close> itself raised. An exception of the
  transport is raised unchanged. In every case exactly one request has been sent.
\<close>

theorem get_json_response_async_outcome:
  "(http (session c) (full_url c path) params = Inr r \<longrightarrow>
      (fst (get_json_response_async http c path params) = Inr v)
        = (status r = 200 \<and> body_json r = Inr v))
   \<and> (http (session c) (full_url c path) params = Inr r \<and> status r \<noteq> 200 \<longrightarrow>
        (\<exists>e. fst (get_json_response_async http c path params) = Inl e
             \<and> (get_error r = Inr (Some e) \<or> get_error r = Inl e)))
   \<and> (http (session c) (full_url c path) params = Inl e' \<longrightarrow>
        fst (get_json_response_async http c path params) = Inl e')
   \<and> sess_sent (session (snd (get_json_response_async http c path params)))
        = sess_sent (session c) @ [(full_url c path, params)]"
proof (intro conjI impI)
  assume h: "http (session c) (full_url c path) params = Inr r"
  show "(fst (get_json_response_async http c path params) = Inr v)
        = (status r = 200 \<and> body_json r = Inr v)"
  proof (cases "status r = 200")
    case True
    then show ?thesis by (simp add: fst_get_json_response_async h get_error_ok)
  next
    case False
    then have "get_error r \<noteq> Inr None" by (simp add: get_error_None_iff)
    with False show ?thesis
      by (simp add: fst_get_json_response_async h split: sum.splits option.splits)
  qed
next
  assume h: "http (session c) (full_url c path) params = Inr r \<and> status r \<noteq> 200"
  then have "get_error r \<noteq> Inr None" by (simp add: get_error_None_iff)
  with h show "\<exists>e. fst (get_json_response_async http c path params) = Inl e
             \<and> (get_error r = Inr (Some e) \<or> get_error r = Inl e)"
    by (simp add: fst_get_json_response_async split: sum.splits option.splits)
next
  assume "http (session c) (full_url c path) params = Inl e'"
  then show "fst (get_json_response_async http c path params) = Inl e'"
    by (simp add: fst_get_json_response_async)
next
  show "sess_sent (session (snd (get_json_response_async http c path params)))
        = sess_sent (session c) @ [(full_url c path, params)]"
    by (simp add: snd_get_json_response_async sent_record_request)
qed

theorem get_json_response_async_outcome_witness:
  "fst (get_json_response_async (always (json_page 200 ''raw'' (PDict [(''data'', PInt 7)])))
          example_client ''/files/abc'' None) = Inr (PDict [(''data'', PInt 7)])
   \<and> (\<exists>e. fst (get_json_response_async (always (html_page 503)) example_client ''/files/abc'' None)
            = Inl e
          \<and> (get_error (html_page 503) = Inr (Some e) \<or> get_error (html_page 503) = Inl e))
   \<and> fst (get_json_response_async (\<lambda>s url params. Inl (OtherError ''timeout''))
            example_client ''/files/abc'' None) = Inl (OtherError ''timeout'')
   \<and> sess_sent (session (snd (get_json_response_async (always (html_page 503))
            example_client ''/files/abc'' None)))
       = [(''https://www.virustotal.com/api/v3/files/abc'', None)]"
  using get_json_response_async_outcome
      [of "always (json_page 200 ''raw'' (PDict [(''data'', PInt 7)]))" example_client
          "''/files/abc''" None "json_page 200 ''raw'' (PDict [(''data'', PInt 7)])"
          "PDict [(''data'', PInt 7)]"]
    get_json_response_async_outcome
      [of "always (html_page 503)" example_client "''/files/abc''" None "html_page 503"]
    get_json_response_async_outcome
      [of "\<lambda>s url params. Inl (OtherError ''timeout'')" example_client "''/files/abc''" None
          _ _ "OtherError ''timeout''"]
  by (simp add: always_def json_page_def html_page_def full_url_files)
     (simp add: example_client_def)

text \<open>The claim as stated fails: with status 200 and a body that is not JSON nothing is
  returned, and with status 404 and such a body the exception raised is the parser's,
  not an \<open>APIError\<close>.\<close>

theorem get_json_response_async_counterexample:
  "fst (get_json_response_async (always (html_page 200)) example_client ''/files/abc'' None)
     = Inl (OtherError ''ContentTypeError'')
   \<and> fst (get_json_response_async (always (html_page 404)) example_client ''/files/abc'' None)
     = Inl (OtherError ''ContentTypeError'')"
  by (simp add: fst_get_json_response_async always_def html_page_def get_error_def)

text \<open>
  C3 (as amended). For every response with status 200 whose body parses as a JSON
  object, \<open>get_data_async\<close> returns the value of the object's \<open>data\<close> member, and raises
  \<open>ValueError('<path> does not returns a data field')\<close> when the object has none.
\<close>

theorem get_data_async_object:
  assumes "http (session c) (full_url c path) params = Inr r"
    and "status r = 200"
    and "body_json r = Inr (PDict kv)"
  shows "get_data_async http c path params =
           ((case map_of kv ''data'' of
               Some d \<Rightarrow> Inr d
             | None \<Rightarrow> Inl (ValueError (path @ '' does not returns a data field''))),
            record_request c (full_url c path) params)"
proof -
  have j: "get_json_response_async http c path params =
             (Inr (PDict kv), record_request c (full_url c path) params)"
    using assms
    by (simp add: prod_eq_iff fst_get_json_response_async snd_get_json_response_async
        get_error_ok)
  show ?thesis
    by (cases "map_of kv ''data''")
       (simp_all add: get_data_async_def j dict_contains_iff)
qed

theorem get_data_async_object_witness:
  "fst (get_data_async (always (json_page 200 ''raw'' (PDict [(''data'', PInt 7)])))
          example_client ''/files/abc'' None) = Inr (PInt 7)
   \<and> fst (get_data_async (always (json_page 200 ''raw'' (PDict [(''meta'', PDict [])])))
          example_client ''/files/abc'' None)
       = Inl (ValueError ''/files/abc does not returns a data field'')"
  using get_data_async_object
      [of "always (json_page 200 ''raw'' (PDict [(''data'', PInt 7)]))" example_client
          "''/files/abc''" None "json_page 200 ''raw'' (PDict [(''data'', PInt 7)])"
          "[(''data'', PInt 7)]"]
    get_data_async_object
      [of "always (json_page 200 ''raw'' (PDict [(''meta'', PDict [])]))" example_client
          "''/files/abc''" None "json_page 200 ''raw'' (PDict [(''meta'', PDict [])])"
          "[(''meta'', PDict [])]"]
  by (simp add: always_def json_page_def)

text \<open>The claim as stated fails: a status-200 body that parses to \<^verbatim>\<open>null\<close> or to a number
  has no \<open>data\<close> field, and the exception raised is a \<open>TypeError\<close>, not a
  \<open>ValueError\<close>.\<close>

theorem get_data_async_counterexample:
  "fst (get_data_async (always (json_page 200 ''null'' PNone)) example_client ''/files/abc'' None)
     = Inl TypeError
   \<and> fst (get_data_async (always (json_page 200 ''5'' (PInt 5)))
            example_client ''/files/abc'' None)
     = Inl TypeError"
  by (simp add: get_data_async_def get_json_response_async_def get_async_def always_def
      json_page_def get_error_def)

text \<open>
  C6. When the data of a path is fetched and \<open>Object.from_dict\<close> raises a \<open>ValueError\<close>
  on it, \<open>get_object_async\<close> raises \<open>ValueError('<path> did not return an object:
  <the decoder's message>')\<close>, after the one request that fetched the data: nothing is
  fetched again.
\<close>

theorem get_object_async_decode_failure:
  assumes "get_data_async http c path params = (Inr d, c')"
    and "from_dict d = Inl (ValueError m)"
  shows "get_object_async from_dict http c path params =
           (Inl (ValueError (path @ '' did not return an object: '' @ m)), c')
         \<and> sess_sent (session c') = sess_sent (session c) @ [(full_url c path, params)]"
proof -
  have "c' = record_request c (full_url c path) params"
    using snd_get_data_async [of http c path params] assms(1) by simp
  then show ?thesis
    using assms by (simp add: get_object_async_def sent_record_request)
qed

theorem get_object_async_decode_failure_witness:
  "get_object_async (\<lambda>d. (Inl (ValueError ''Expecting dictionary'') :: exn + unit))
      (always (json_page 200 ''raw'' (PDict [(''data'', PInt 7)]))) example_client
      ''/files/abc'' None
     = (Inl (ValueError ''/files/abc did not return an object: Expecting dictionary''),
        record_request example_client ''https://www.virustotal.com/api/v3/files/abc'' None)
   \<and> sess_sent (session (record_request example_client
        ''https://www.virustotal.com/api/v3/files/abc'' None))
      = [(''https://www.virustotal.com/api/v3/files/abc'', None)]"
proof -
  have d: "get_data_async (always (json_page 200 ''raw'' (PDict [(''data'', PInt 7)])))
             example_client ''/files/abc'' None
           = (Inr (PInt 7),
              record_request example_client ''https://www.virustotal.com/api/v3/files/abc'' None)"
    by (simp add: get_data_async_def get_json_response_async_def get_async_def always_def
        json_page_def get_error_def full_url_files)
  show ?thesis
    using get_object_async_decode_failure
      [OF d, of "\<lambda>d. (Inl (ValueError ''Expecting dictionary'') :: exn + unit)"
         "''Expecting dictionary''"]
    by (simp add: full_url_files) (simp add: example_client_def)
qed

section \<open>Closing\<close>

text \<open>
  C8 (the code fails it). Whatever stack the interpreter allows, the synchronous
  \<open>close\<close> never reaches \<open>close_async\<close>: it ends in \<open>RecursionError\<close> and returns no
  client, so no session with \<open>sess_closed\<close> set comes out of it, while \<open>close_async\<close>
  returns the client with its session closed.
\<close>

theorem close_never_closes:
  "close frames c = Inl RecursionError
   \<and> close_async c = Inr (c\<lparr>session := (session c)\<lparr>sess_closed := True\<rparr>\<rparr>)"
  by (induction frames) (simp_all add: close_async_def)

section \<open>URLs and construction\<close>

text \<open>
  C9. \<open>_full_url\<close> returns a path that starts with \<^verbatim>\<open>http\<close> unchanged, and every other
  path with the client's host and \<^verbatim>\<open>/api/v3\<close> in front of it.
\<close>

theorem full_url_prefix_once:
  "((\<exists>rest. path = ''http'' @ rest) \<longrightarrow> full_url c path = path)
   \<and> (\<not> (\<exists>rest. path = ''http'' @ rest) \<longrightarrow> full_url c path = host c @ ''/api/v3'' @ path)"
  by (simp add: full_url_def startswith_iff ENDPOINT_PREFIX_def)

theorem full_url_prefix_once_witness:
  "full_url example_client ''https://example.org/x'' = ''https://example.org/x''
   \<and> full_url example_client ''/files/abc'' = ''https://www.virustotal.com/api/v3/files/abc''"
  using full_url_prefix_once [of "''https://example.org/x''" example_client]
    full_url_prefix_once [of "''/files/abc''" example_client]
  by (simp add: example_client_def)

text \<open>
  C10 (as amended). \<open>Client.__init__\<close> raises \<open>ValueError\<close> for an API key that is
  \<open>None\<close> or empty and constructs no session; for every non-empty key it succeeds,
  constructs one session, stores the key, and sets the host to the given host when that
  is a non-empty string, else to \<^verbatim>\<open>https://www.virustotal.com\<close>.
\<close>

theorem Client_init_outcome:
  "(key = None \<or> key = Some [] \<longrightarrow>
      Client_init version key agent_name host_arg n
        = (Inl (ValueError (''Expecting API key, got: '' @ str_opt key)), n))
   \<and> (key = Some k \<and> k \<noteq> [] \<longrightarrow>
        (\<exists>c. Client_init version key agent_name host_arg n = (Inr c, Suc n)
            \<and> apikey c = k
            \<and> host c = (case host_arg of
                          None \<Rightarrow> ''https://www.virustotal.com''
                        | Some h \<Rightarrow> if h = [] then ''https://www.virustotal.com'' else h)))"
  by (cases host_arg) (simp_all add: Client_init_def API_HOST_def)

theorem Client_init_outcome_witness:
  "Client_init ''0.5.0'' None ''unknown'' None 0
     = (Inl (ValueError ''Expecting API key, got: None''), 0)
   \<and> Client_init ''0.5.0'' (Some '''') ''unknown'' None 0
     = (Inl (ValueError ''Expecting API key, got: ''), 0)
   \<and> (\<exists>c. Client_init ''0.5.0'' (Some ''k3y'') ''unknown'' (Some ''http://localhost:8080'') 0
            = (Inr c, 1)
          \<and> apikey c = ''k3y'' \<and> host c = ''http://localhost:8080'')
   \<and> (\<exists>c. Client_init ''0.5.0'' (Some ''k3y'') ''unknown'' None 0 = (Inr c, 1)
          \<and> apikey c = ''k3y'' \<and> host c = ''https://www.virustotal.com'')"
  using Client_init_outcome [of None "''0.5.0''" "''unknown''" None 0]
    Client_init_outcome [of "Some ''''" "''0.5.0''" "''unknown''" None 0]
    Client_init_outcome [of "Some ''k3y''" "''0.5.0''" "''unknown''"
                            "Some ''http://localhost:8080''" 0 "''k3y''"]
    Client_init_outcome [of "Some ''k3y''" "''0.5.0''" "''unknown''" None 0 "''k3y''"]
  by simp

text \<open>The claim as stated fails: an empty host is supplied, and the client's host is the
  default one.\<close>

theorem Client_init_empty_host_counterexample:
  "Client_init ''0.5.0'' (Some ''k3y'') ''unknown'' (Some '''') 0 = (Inr example_client, 1)
   \<and> host example_client = ''https://www.virustotal.com''"
  by (simp add: Client_init_def example_client_def API_HOST_def USER_AGENT_FMT_def)

section \<open>Handing out iterators\<close>

text \<open>
  C7. \<open>Client.iterator\<close> returns the iterator that the constructor builds from the
  client, the path and the given cursor, limit and batch size, and \<open>Client.feed\<close> the
  feed that the constructor builds from the client, the feed type and the cursor. The
  client inside is the one given, with not one request more in its session, nothing is
  buffered and nothing counted: neither call fetches.
\<close>

theorem iterator_feed_construct_only:
  "(iterator c path cursor limit batch_size :: 'obj Iterator)
     = \<lparr> it_client = c, it_path = path,
         it_cursor = (case cursor of None \<Rightarrow> [] | Some s \<Rightarrow> s),
         it_limit = limit, it_batch_size = batch_size,
         it_buffer = [], it_count = 0, it_terminal = False \<rparr>
   \<and> sess_sent (session (it_client
         (iterator c path cursor limit batch_size :: 'obj Iterator))) = sess_sent (session c)
   \<and> feed cfg c feed_type start
     = \<lparr> fd_config = cfg, fd_client = c, fd_type = feed_type,
         fd_cursor = (case start of None \<Rightarrow> cfg_default_cursor cfg | Some s \<Rightarrow> s),
         fd_retries = 0, fd_failed = None \<rparr>
   \<and> sess_sent (session (fd_client (feed cfg c feed_type start))) = sess_sent (session c)"
  by (simp add: iterator_def Iterator_init_def feed_def Feed_init_def)

theorem iterator_feed_construct_only_witness:
  "(iterator example_client ''/comments'' (Some ''abc'') (Some 10) (Some 5) :: pyval Iterator)
     = \<lparr> it_client = example_client, it_path = ''/comments'', it_cursor = ''abc'',
         it_limit = Some 10, it_batch_size = Some 5, it_buffer = [], it_count = 0,
         it_terminal = False \<rparr>
   \<and> sess_sent (session (it_client
         (iterator example_client ''/comments'' (Some ''abc'') (Some 10) (Some 5)
            :: pyval Iterator))) = []
   \<and> feed example_config example_client FILES None
     = \<lparr> fd_config = example_config, fd_client = example_client, fd_type = FILES,
         fd_cursor = ''202304010930'', fd_retries = 0, fd_failed = None \<rparr>
   \<and> sess_sent (session (fd_client (feed example_config example_client FILES None))) = []"
proof -
  have s: "sess_sent (session example_client) = []"
    by (simp add: example_client_def)
  have d: "cfg_default_cursor example_config = ''202304010930''"
    by (simp add: example_config_def)
  show ?thesis
    using iterator_feed_construct_only
      [where ?'obj = pyval, of example_client "''/comments''" "Some ''abc''" "Some 10" "Some 5"
         example_config FILES None]
    by (simp add: s d)
qed

section \<open>The limit of a collection iterator\<close>














section \<open>The retry budget of a feed\<close>

lemma full_url_record_request: "full_url (record_request c url q) path = full_url c path"
  by (simp add: full_url_def record_request_def)

lemma not_found_fetch:
  assumes "reports_not_found http cfg c path q"
  obtains e where
    "get_json_response_async http c path q = (Inl e, record_request c (full_url c path) q)"
    and "cfg_not_found cfg e"
proof (cases "fst (get_json_response_async http c path q)")
  case (Inl e)
  with assms have "cfg_not_found cfg e" by (simp add: reports_not_found_def)
  moreover have "get_json_response_async http c path q
                   = (Inl e, record_request c (full_url c path) q)"
    using Inl snd_get_json_response_async [of http c path q] by (simp add: prod_eq_iff)
  ultimately show ?thesis using that by blast
next
  case (Inr page)
  with assms show ?thesis by (simp add: reports_not_found_def)
qed

text \<open>With \<open>n\<close> retries left and the next \<open>n + 1\<close> fetches of the window all reporting
  "not found", the request makes exactly those fetches and gives up.\<close>

lemma next_batch_exhausts:
  "fd_failed fd = None \<Longrightarrow>
   cfg_retry_budget (fd_config fd) - fd_retries fd = n \<Longrightarrow>
   window_request fd = (path, q) \<Longrightarrow>
   full_url (fd_client fd) path = url \<Longrightarrow>
   \<forall>k \<le> n. reports_not_found http (fd_config fd) (requests_later k url q (fd_client fd)) path q \<Longrightarrow>
     fst (next_batch http decode fd) = Raise RetriesExhaustedError
     \<and> fd_cursor (snd (next_batch http decode fd)) = fd_cursor fd
     \<and> fd_failed (snd (next_batch http decode fd)) = None
     \<and> sess_sent (session (fd_client (snd (next_batch http decode fd))))
         = sess_sent (session (fd_client fd)) @ replicate (Suc n) (url, q)"
proof (induction n arbitrary: fd)
  case 0
  from "0.prems"(5) have "reports_not_found http (fd_config fd) (fd_client fd) path q"
    by simp
  then obtain e where
    "get_json_response_async http (fd_client fd) path q
       = (Inl e, record_request (fd_client fd) (full_url (fd_client fd) path) q)"
    and nf: "cfg_not_found (fd_config fd) e"
    by (rule not_found_fetch)
  then have e: "get_json_response_async http (fd_client fd) path q
                  = (Inl e, record_request (fd_client fd) url q)"
    using "0.prems"(4) by simp
  have "\<not> fd_retries fd < cfg_retry_budget (fd_config fd)"
    using "0.prems"(2) by simp
  then show ?case
    using "0.prems"(1,3) e nf
    by (simp add: next_batch.simps [of http decode fd] sent_record_request)
next
  case (Suc n)
  from Suc.prems(5) have "reports_not_found http (fd_config fd) (fd_client fd) path q"
    by (metis le0 requests_later.simps(1))
  then obtain e where
    "get_json_response_async http (fd_client fd) path q
       = (Inl e, record_request (fd_client fd) (full_url (fd_client fd) path) q)"
    and nf: "cfg_not_found (fd_config fd) e"
    by (rule not_found_fetch)
  then have e: "get_json_response_async http (fd_client fd) path q
                  = (Inl e, record_request (fd_client fd) url q)"
    using Suc.prems(4) by simp
  define fd' where
    "fd' = fd\<lparr>fd_client := record_request (fd_client fd) url q,
              fd_retries := Suc (fd_retries fd)\<rparr>"
  have less: "fd_retries fd < cfg_retry_budget (fd_config fd)"
    using Suc.prems(2) by simp
  have step: "next_batch http decode fd = next_batch http decode fd'"
    using Suc.prems(1,3) e nf less
    by (simp add: next_batch.simps [of http decode fd] fd'_def)
  have later: "\<forall>k \<le> n. reports_not_found http (fd_config fd')
                  (requests_later k url q (fd_client fd')) path q"
  proof (intro allI impI)
    fix k assume "k \<le> n"
    then have "reports_not_found http (fd_config fd)
                 (requests_later (Suc k) url q (fd_client fd)) path q"
      using Suc.prems(5) [rule_format, of "Suc k"] by simp
    then show "reports_not_found http (fd_config fd')
                 (requests_later k url q (fd_client fd')) path q"
      by (simp add: fd'_def)
  qed
  have ih: "fst (next_batch http decode fd') = Raise RetriesExhaustedError
     \<and> fd_cursor (snd (next_batch http decode fd')) = fd_cursor fd'
     \<and> fd_failed (snd (next_batch http decode fd')) = None
     \<and> sess_sent (session (fd_client (snd (next_batch http decode fd'))))
         = sess_sent (session (fd_client fd')) @ replicate (Suc n) (url, q)"
  proof (rule Suc.IH [OF _ _ _ _ later])
    show "fd_failed fd' = None" using Suc.prems(1) by (simp add: fd'_def)
    show "cfg_retry_budget (fd_config fd') - fd_retries fd' = n"
      using Suc.prems(2) by (simp add: fd'_def)
    show "window_request fd' = (path, q)"
      using Suc.prems(3) by (simp add: fd'_def window_request_def)
    show "full_url (fd_client fd') path = url"
      using Suc.prems(4) by (simp add: fd'_def full_url_record_request)
  qed
  show ?case
    using ih by (simp add: step fd'_def sent_record_request)
qed

text \<open>
  C5. For a feed that has not failed, with retry budget \<open>R\<close>: when the next \<open>R + 1\<close>
  fetches of its current window all report "not found", the request for the next batch
  gives \<open>RetriesExhaustedError\<close> and the window cursor is the one it was.
\<close>

theorem next_batch_retries_exhausted:
  fixes decode :: "pyval \<Rightarrow> exn + 'obj"
  assumes "fd_failed fd = None"
    and "not_found_run http fd (Suc (cfg_retry_budget (fd_config fd)))"
  shows "fst (next_batch http decode fd) = Raise RetriesExhaustedError
         \<and> fd_cursor (snd (next_batch http decode fd)) = fd_cursor fd"
proof -
  obtain path q where w: "window_request fd = (path, q)"
    by (cases "window_request fd")
  have "\<forall>k \<in> set [0..<Suc (cfg_retry_budget (fd_config fd))].
          reports_not_found http (fd_config fd)
            (requests_later k (full_url (fd_client fd) path) q (fd_client fd)) path q"
    using assms(2) by (simp add: not_found_run_def list_all_iff w del: upt_Suc)
  then have "\<forall>k \<le> cfg_retry_budget (fd_config fd) - fd_retries fd.
          reports_not_found http (fd_config fd)
            (requests_later k (full_url (fd_client fd) path) q (fd_client fd)) path q"
    by (simp del: upt_Suc)
  from next_batch_exhausts [where decode = decode, OF assms(1) refl w refl this]
  show ?thesis by simp
qed

lemma requests_later_always:
  "reports_not_found (always r) cfg (requests_later k url q c) path q
     = reports_not_found (always r) cfg c path q"
  by (simp add: reports_not_found_def fst_get_json_response_async always_def)

theorem next_batch_retries_exhausted_witness:
  "fd_failed (feed example_config example_client FILES None) = None
   \<and> not_found_run (always not_found_page) (feed example_config example_client FILES None) 3
   \<and> fst (next_batch (always not_found_page) (Inr :: pyval \<Rightarrow> exn + pyval)
            (feed example_config example_client FILES None))
       = Raise RetriesExhaustedError
   \<and> fd_cursor (snd (next_batch (always not_found_page) (Inr :: pyval \<Rightarrow> exn + pyval)
                        (feed example_config example_client FILES None)))
       = ''202304010930''"
proof -
  have f: "fd_failed (feed example_config example_client FILES None) = None"
    by (simp add: feed_def Feed_init_def)
  have one: "reports_not_found (always not_found_page) example_config example_client path q"
    for path q
    by (simp add: reports_not_found_def fst_get_json_response_async always_def
        not_found_page_def json_page_def get_error_def APIError_from_dict_def example_config_def)
  have run: "not_found_run (always not_found_page)
               (feed example_config example_client FILES None)
               (Suc (cfg_retry_budget (fd_config (feed example_config example_client FILES None))))"
    by (simp add: not_found_run_def list_all_iff requests_later_always feed_def Feed_init_def one)
  have b: "Suc (cfg_retry_budget (fd_config (feed example_config example_client FILES None))) = 3"
    by (simp add: feed_def Feed_init_def example_config_def)
  have c: "fd_cursor (feed example_config example_client FILES None) = ''202304010930''"
    by (simp add: feed_def Feed_init_def example_config_def)
  have "fst (next_batch (always not_found_page) (Inr :: pyval \<Rightarrow> exn + pyval)
               (feed example_config example_client FILES None)) = Raise RetriesExhaustedError
        \<and> fd_cursor (snd (next_batch (always not_found_page) (Inr :: pyval \<Rightarrow> exn + pyval)
               (feed example_config example_client FILES None)))
            = fd_cursor (feed example_config example_client FILES None)"
    by (rule next_batch_retries_exhausted [OF f run])
  with f run show ?thesis by (simp add: b c)
qed

end
